theory Spec2Isabelle
  imports Complex_Main
begin

section \<open>Data model\<close>

text \<open>
  The two request handlers of the point-of-sale backend are embedded here: the return
  handler (\<^verbatim>\<open>app/api/transactions/[id]/return/route.ts\<close>, exposed as \<^verbatim>\<open>processReturn\<close>) and
  the cashier-to-cashier handler (exposed as \<^verbatim>\<open>transferStock\<close>).

  A JavaScript \<^verbatim>\<open>number\<close> is modelled as a rational: sums, products and quotients are exact,
  where the program rounds each result to a binary64 double. The model therefore says which
  expression the program evaluates and how amounts compare when they are computed exactly
  (whole quantities, amounts that need no rounding); it does not say that two amounts that
  the program rounds separately are equal, and no theorem of a claim below rests on such
  an equation. Identifiers (ObjectId, string) are strings, compared with equality, which
  is what both \<^verbatim>\<open>toString() === \<close> comparisons of the source do on them. A \<^verbatim>\<open>Date\<close> is its
  \<^verbatim>\<open>getTime()\<close>, an integer.
\<close>

type_synonym number = rat

text \<open>One line of the body of a return request: \<^verbatim>\<open>{ itemIndex, quantity, description }\<close>.\<close>

record ReturnLine =
  itemIndex :: int
  quantity :: number
  description :: string

text \<open>
  The six fields that a line of a transfer request, a line item of a distribution and an
  item of a transaction have in common. A line of a transfer request has exactly these.
\<close>

record ProductLine =
  productId :: string
  productName :: string
  productSku :: string
  category :: string
  quantity :: number
  price :: number

record ITransactionItem = ProductLine +
  discount :: number
  total :: number

record IReturnedItem = ITransactionItem +
  returnAmount :: number
  description :: string
  returnedAt :: int

datatype TransactionStatus = completed | refunded | voided

text \<open>
  \<^verbatim>\<open>ITransaction\<close>; the status \<^verbatim>\<open>'cancelled'\<close> of a transaction is written \<open>voided\<close>, the
  name \<open>cancelled\<close> being the status of a distribution below.
\<close>

record ITransaction =
  cashierId :: string
  items :: "ITransactionItem list"
  returnedItems :: "IReturnedItem list"
  subtotal :: number
  overallDiscount :: number
  totalAmount :: number
  cashReceived :: number
  change :: number
  status :: TransactionStatus
  createdAt :: int
  updatedAt :: int

datatype DistributionStatus = pending | delivered | cancelled

record DistributionItem = ProductLine +
  totalValue :: number

text \<open>
  Modelled from the spec: the schema of a distribution (\<^verbatim>\<open>lib/distribution\<close>) is not among
  the sources. The record has the fields that the two handlers read and write and that the
  spec's DistributionLot lists: an identity, the owning cashier, the origin, the line items,
  the total value, the status, the notes and the creation time.
\<close>

record Distribution =
  docId :: string
  adminId :: string
  cashierId :: string
  items :: "DistributionItem list"
  totalValue :: number
  notes' :: string
  status :: DistributionStatus
  createdAt :: int

text \<open>The two collections of the document store.\<close>

record Db =
  transactions :: "string \<rightharpoonup> ITransaction"
  distributions :: "Distribution list"

datatype error =
    NoItemsSelected
  | TransactionNotFound
  | InvalidItemIndex int
  | CannotReturn number string number
  | FailedToProcessReturn
  | MissingRequiredFields
  | CannotDistributeToYourself
  | InvalidItemData
  | InsufficientStock string number number

section \<open>The document store\<close>

text \<open>
  \<^verbatim>\<open>Distribution.find({ cashierId, status: { $in: [...] } })\<close> returns the matching documents
  in the order of the collection. \<^verbatim>\<open>.sort({ createdAt: -1 })\<close> and the two
  \<^verbatim>\<open>Array.prototype.sort\<close> calls order by creation time; the model sorts stably, so
  documents created at the same instant keep the order of the collection.
\<close>

definition findDistributions ::
  "string \<Rightarrow> DistributionStatus list \<Rightarrow> Distribution list \<Rightarrow> Distribution list" where
  "findDistributions c sts ds =
     filter (\<lambda>d. Distribution.cashierId d = c \<and> Distribution.status d \<in> set sts) ds"

definition sortNewestFirst :: "Distribution list \<Rightarrow> Distribution list" where
  "sortNewestFirst ds = sort_key (\<lambda>d. - Distribution.createdAt d) ds"

definition sortOldestFirst :: "Distribution list \<Rightarrow> Distribution list" where
  "sortOldestFirst ds = sort_key Distribution.createdAt ds"

text \<open>
  \<^verbatim>\<open>await dist.save()\<close> replaces the stored document that has the identity of \<open>d\<close>.
  Saving a distribution always succeeds in the model.
\<close>

definition saveDistribution :: "Distribution \<Rightarrow> Distribution list \<Rightarrow> Distribution list" where
  "saveDistribution d ds = map (\<lambda>x. if docId x = docId d then d else x) ds"

text \<open>\<^verbatim>\<open>items.reduce((sum, item) => sum + (item.quantity * item.price), 0)\<close>\<close>

definition lotValue :: "DistributionItem list \<Rightarrow> number" where
  "lotValue its = foldl (\<lambda>sum item. sum + quantity item * price item) 0 its"

section \<open>The return handler\<close>

text \<open>
  The validators of the transaction schema, which \<^verbatim>\<open>transaction.save()\<close> runs: required
  strings are not empty, \<^verbatim>\<open>quantity\<close> has \<^verbatim>\<open>min: 1\<close>, \<^verbatim>\<open>discount\<close> lies in \<open>[0, 100]\<close>, and the
  amounts have \<^verbatim>\<open>min: 0\<close>. A document that fails them is not stored: \<^verbatim>\<open>save\<close> throws and the
  handler answers \<^verbatim>\<open>Failed to process return\<close>.
\<close>

definition validItem :: "'a ITransactionItem_scheme \<Rightarrow> bool" where
  "validItem i \<longleftrightarrow>
     productId i \<noteq> [] \<and> productName i \<noteq> [] \<and> productSku i \<noteq> [] \<and> category i \<noteq> [] \<and>
     1 \<le> quantity i \<and> 0 \<le> price i \<and> 0 \<le> discount i \<and> discount i \<le> 100 \<and> 0 \<le> total i"

definition validReturnedItem :: "IReturnedItem \<Rightarrow> bool" where
  "validReturnedItem r \<longleftrightarrow> validItem r \<and> 0 \<le> returnAmount r \<and> IReturnedItem.description r \<noteq> []"

definition validTransaction :: "ITransaction \<Rightarrow> bool" where
  "validTransaction t \<longleftrightarrow>
     ITransaction.cashierId t \<noteq> [] \<and>
     list_all validItem (ITransaction.items t) \<and>
     list_all validReturnedItem (returnedItems t) \<and>
     0 \<le> subtotal t \<and> 0 \<le> overallDiscount t \<and> 0 \<le> totalAmount t \<and>
     0 \<le> cashReceived t \<and> 0 \<le> change t"

text \<open>
  \<^verbatim>\<open>alreadyReturned\<close>: the quantity already returned of the product and sku of the original
  item, read from the returned items that the transaction had when it was loaded.
\<close>

definition alreadyReturned :: "ITransaction \<Rightarrow> ITransactionItem \<Rightarrow> number" where
  "alreadyReturned t originalItem =
     foldl (\<lambda>sum ret.
              if productId ret = productId originalItem \<and> productSku ret = productSku originalItem
              then sum + quantity ret else sum)
           0 (returnedItems t)"

text \<open>
  The inner loop over the line items of one distribution: every line item of the product
  takes \<^verbatim>\<open>Math.min(remainingQuantity, quantity)\<close>, and the loop stops once nothing remains.
  The result is the remaining quantity, whether a line item matched, and the line items.
\<close>

fun addBackItems ::
  "string \<Rightarrow> number \<Rightarrow> number \<Rightarrow> DistributionItem list \<Rightarrow> number \<times> bool \<times> DistributionItem list" where
  "addBackItems pid qty remaining [] = (remaining, False, [])"
| "addBackItems pid qty remaining (distItem # rest) =
     (if productId distItem = pid then
        (let addBackQty = min remaining qty;
             q = quantity distItem + addBackQty;
             distItem' = distItem\<lparr>quantity := q, DistributionItem.totalValue := q * price distItem\<rparr>;
             remaining' = remaining - addBackQty
         in if remaining' \<le> 0 then (remaining', True, distItem' # rest)
            else (case addBackItems pid qty remaining' rest of
                    (r, _, rest') \<Rightarrow> (r, True, distItem' # rest')))
      else (case addBackItems pid qty remaining rest of
              (r, m, rest') \<Rightarrow> (r, m, distItem # rest')))"

text \<open>
  The outer loop over the distributions of the cashier, newest first. A distribution in
  which a line item matched leaves the status \<open>cancelled\<close> for \<open>pending\<close>, has its total value
  recomputed and is saved. The result is the remaining quantity, the documents as the
  handler holds them, and the stored distributions.
\<close>

fun addBackLoop ::
  "string \<Rightarrow> number \<Rightarrow> number \<Rightarrow> Distribution list \<Rightarrow> Distribution list \<Rightarrow>
   number \<times> Distribution list \<times> Distribution list" where
  "addBackLoop pid qty remaining [] db = (remaining, [], db)"
| "addBackLoop pid qty remaining (distribution # rest) db =
     (if remaining \<le> 0 then (remaining, distribution # rest, db)
      else (case addBackItems pid qty remaining (Distribution.items distribution) of
              (remaining', matched, its) \<Rightarrow>
                if matched then
                  (let distribution' = distribution
                         \<lparr>Distribution.items := its,
                          Distribution.totalValue := lotValue its,
                          Distribution.status :=
                            (if Distribution.status distribution = cancelled then pending
                             else Distribution.status distribution)\<rparr>
                   in case addBackLoop pid qty remaining' rest (saveDistribution distribution' db) of
                        (r, rest', db') \<Rightarrow> (r, distribution' # rest', db'))
                else (case addBackLoop pid qty remaining' rest db of
                        (r, rest', db') \<Rightarrow> (r, distribution # rest', db'))))"

text \<open>
  \<^verbatim>\<open>targetDistribution\<close>: the newest pending or delivered document, else the first document
  (the newest of any status), else none.
\<close>

definition targetDistribution :: "Distribution list \<Rightarrow> Distribution option" where
  "targetDistribution docs =
     (case sortNewestFirst
             (filter (\<lambda>d. Distribution.status d = pending \<or> Distribution.status d = delivered) docs) of
        t # _ \<Rightarrow> Some t
      | [] \<Rightarrow> (case docs of t # _ \<Rightarrow> Some t | [] \<Rightarrow> None))"

text \<open>Changes the first element that satisfies \<open>P\<close>, as a mutation of the result of \<^verbatim>\<open>find\<close> does.\<close>

fun updateFirst :: "('a \<Rightarrow> bool) \<Rightarrow> ('a \<Rightarrow> 'a) \<Rightarrow> 'a list \<Rightarrow> 'a list" where
  "updateFirst P f [] = []"
| "updateFirst P f (x # xs) = (if P x then f x # xs else x # updateFirst P f xs)"

text \<open>
  The quantity that is left after the loop goes to the target distribution: to its line
  item of the product, or to a new line item with the data of the original item.
\<close>

definition addRemaining ::
  "ITransactionItem \<Rightarrow> number \<Rightarrow> Distribution list \<Rightarrow> Distribution list \<Rightarrow> Distribution list" where
  "addRemaining originalItem remaining docs db =
     (case targetDistribution docs of
        None \<Rightarrow> db
      | Some target \<Rightarrow>
          (let its =
                 (case find (\<lambda>item. productId item = productId originalItem) (Distribution.items target) of
                    Some _ \<Rightarrow>
                      updateFirst (\<lambda>item. productId item = productId originalItem)
                        (\<lambda>item. item\<lparr>quantity := quantity item + remaining,
                                      DistributionItem.totalValue :=
                                        (quantity item + remaining) * price item\<rparr>)
                        (Distribution.items target)
                  | None \<Rightarrow>
                      Distribution.items target @
                        [\<lparr>productId = productId originalItem,
                          productName = productName originalItem,
                          productSku = productSku originalItem,
                          category = category originalItem,
                          quantity = remaining,
                          price = price originalItem,
                          DistributionItem.totalValue = remaining * price originalItem\<rparr>]);
               target' = target
                 \<lparr>Distribution.items := its,
                  Distribution.totalValue := lotValue its,
                  Distribution.status :=
                    (if Distribution.status target = cancelled then pending
                     else Distribution.status target)\<rparr>
           in saveDistribution target' db))"

text \<open>
  The stock of one returned line goes back to the distributions of the cashier of the
  transaction (the body of the loop from \<^verbatim>\<open>Distribution.find\<close> on).
\<close>

definition reinstate ::
  "string \<Rightarrow> ITransactionItem \<Rightarrow> number \<Rightarrow> Distribution list \<Rightarrow> Distribution list" where
  "reinstate cashier originalItem qty db =
     (case addBackLoop (productId originalItem) qty qty
             (sortNewestFirst (findDistributions cashier [pending, delivered, cancelled] db)) db of
        (remainingQuantity, docs, db') \<Rightarrow>
          if remainingQuantity > 0 then addRemaining originalItem remainingQuantity docs db'
          else db')"

text \<open>
  The loop over the lines of the request. It carries \<^verbatim>\<open>totalReturnAmount\<close>,
  \<^verbatim>\<open>newReturnedItems\<close> and the stored distributions; a line that is refused ends the
  handler with the distributions as they are at that moment.
\<close>

fun returnLoop ::
  "ITransaction \<Rightarrow> int \<Rightarrow> ReturnLine list \<Rightarrow> number \<Rightarrow> IReturnedItem list \<Rightarrow> Distribution list \<Rightarrow>
   (error + number \<times> IReturnedItem list) \<times> Distribution list" where
  "returnLoop transaction now [] totalReturnAmount newReturnedItems db =
     (Inr (totalReturnAmount, newReturnedItems), db)"
| "returnLoop transaction now (returnRequest # rest) totalReturnAmount newReturnedItems db =
     (if itemIndex returnRequest < 0 \<or>
         itemIndex returnRequest \<ge> int (length (ITransaction.items transaction))
      then (Inl (InvalidItemIndex (itemIndex returnRequest)), db)
      else
        (let originalItem = ITransaction.items transaction ! nat (itemIndex returnRequest);
             availableToReturn = quantity originalItem - alreadyReturned transaction originalItem
         in if ReturnLine.quantity returnRequest > availableToReturn
            then (Inl (CannotReturn (ReturnLine.quantity returnRequest) (productName originalItem)
                          availableToReturn), db)
            else
              (let returnAmount =
                     (total originalItem / quantity originalItem) * ReturnLine.quantity returnRequest;
                   returned =
                     \<lparr>productId = productId originalItem,
                      productName = productName originalItem,
                      productSku = productSku originalItem,
                      category = category originalItem,
                      quantity = ReturnLine.quantity returnRequest,
                      price = price originalItem,
                      discount = discount originalItem,
                      total = total originalItem,
                      returnAmount = returnAmount,
                      description =
                        (if ReturnLine.description returnRequest = [] then ''No reason provided''
                         else ReturnLine.description returnRequest),
                      returnedAt = now\<rparr>
               in returnLoop transaction now rest (totalReturnAmount + returnAmount)
                    (newReturnedItems @ [returned])
                    (reinstate (ITransaction.cashierId transaction) originalItem
                       (ReturnLine.quantity returnRequest) db))))"

text \<open>The update of the transaction after the loop.\<close>

definition applyReturn :: "ITransaction \<Rightarrow> number \<Rightarrow> IReturnedItem list \<Rightarrow> ITransaction" where
  "applyReturn transaction totalReturnAmount newReturnedItems =
     (let allReturned = returnedItems transaction @ newReturnedItems;
          totalReturnedQuantity = foldl (\<lambda>sum ret. sum + quantity ret) 0 allReturned;
          totalOriginalQuantity =
            foldl (\<lambda>sum item. sum + quantity item) 0 (ITransaction.items transaction)
      in transaction
           \<lparr>returnedItems := allReturned,
            subtotal := max 0 (subtotal transaction - totalReturnAmount),
            totalAmount := max 0 (totalAmount transaction - totalReturnAmount),
            ITransaction.status :=
              (if totalReturnedQuantity \<ge> totalOriginalQuantity then refunded
               else ITransaction.status transaction)\<rparr>)"

text \<open>
  The handler. \<open>now\<close> is the reading of the clock, used for \<^verbatim>\<open>returnedAt\<close> and for the
  \<^verbatim>\<open>updatedAt\<close> timestamp of the saved transaction. The result is the response (an error, or
  the saved transaction with the \<^verbatim>\<open>returnAmount\<close>) and the store after the request.
\<close>

definition processReturn ::
  "Db \<Rightarrow> int \<Rightarrow> string \<Rightarrow> ReturnLine list \<Rightarrow> (error + ITransaction \<times> number) \<times> Db" where
  "processReturn db now transactionId requested =
     (if requested = [] then (Inl NoItemsSelected, db)
      else
        (case transactions db transactionId of
           None \<Rightarrow> (Inl TransactionNotFound, db)
         | Some transaction \<Rightarrow>
             (case returnLoop transaction now requested 0 [] (distributions db) of
                (Inl e, ds) \<Rightarrow> (Inl e, db\<lparr>distributions := ds\<rparr>)
              | (Inr (totalReturnAmount, newReturnedItems), ds) \<Rightarrow>
                  (let updated = applyReturn transaction totalReturnAmount newReturnedItems
                   in if validTransaction updated
                      then
                        (let saved = updated\<lparr>updatedAt := now\<rparr>
                         in (Inr (saved, totalReturnAmount),
                             \<lparr>transactions = (transactions db)(transactionId \<mapsto> saved),
                              distributions = ds\<rparr>))
                      else (Inl FailedToProcessReturn, db\<lparr>distributions := ds\<rparr>)))))"

section \<open>The cashier-to-cashier handler\<close>

text \<open>
  \<^verbatim>\<open>senderStock\<close> is an object literal, so a lookup of a name that the object does not have
  itself goes on to \<^verbatim>\<open>Object.prototype\<close>. A value of the record is a number, or something
  else: the function or object that a member of \<^verbatim>\<open>Object.prototype\<close> is, or the string that
  \<^verbatim>\<open>+=\<close> makes of it.
\<close>

datatype jsValue = Num number | Other

text \<open>The names of the members of \<^verbatim>\<open>Object.prototype\<close>.\<close>

definition objectPrototypeMembers :: "string list" where
  "objectPrototypeMembers =
     [''constructor'', ''hasOwnProperty'', ''isPrototypeOf'', ''propertyIsEnumerable'',
      ''toLocaleString'', ''toString'', ''valueOf'', ''__proto__'', ''__defineGetter__'',
      ''__defineSetter__'', ''__lookupGetter__'', ''__lookupSetter__'']"

text \<open>The object \<^verbatim>\<open>{}\<close> as its lookup sees it.\<close>

definition emptyObject :: "string \<rightharpoonup> jsValue" where
  "emptyObject k = (if k \<in> set objectPrototypeMembers then Some Other else None)"

text \<open>
  \<^verbatim>\<open>senderStock\<close>: the record from product id to the summed quantity over the line items of
  the sender's documents. For one line item, \<^verbatim>\<open>if (!senderStock[k]) senderStock[k] = 0\<close>
  makes an entry that is missing (or 0) the number 0 and leaves a function or string, which
  is truthy; \<^verbatim>\<open>senderStock[k] += quantity\<close> adds to a number and appends to anything else,
  which stays something else.
\<close>

definition addStock :: "(string \<rightharpoonup> jsValue) \<Rightarrow> DistributionItem \<Rightarrow> (string \<rightharpoonup> jsValue)" where
  "addStock m item =
     m(productId item \<mapsto>
         (case m (productId item) of
            None \<Rightarrow> Num (0 + quantity item)
          | Some (Num v) \<Rightarrow> Num (v + quantity item)
          | Some Other \<Rightarrow> Other))"

definition senderStock :: "Distribution list \<Rightarrow> (string \<rightharpoonup> jsValue)" where
  "senderStock senderDistributions =
     foldl (\<lambda>m lot. foldl addStock m (Distribution.items lot)) emptyObject senderDistributions"

text \<open>\<^verbatim>\<open>senderStock[item.productId] || 0\<close>\<close>

definition stockOf :: "(string \<rightharpoonup> jsValue) \<Rightarrow> string \<Rightarrow> jsValue" where
  "stockOf m k = (case m k of None \<Rightarrow> Num 0 | Some v \<Rightarrow> v)"

text \<open>
  The first requested line for which the sender holds less than the requested quantity.
  \<^verbatim>\<open>availableStock < item.quantity\<close> is false when \<^verbatim>\<open>availableStock\<close> is not a number: the
  function, object or string converts to NaN.
\<close>

fun checkStock :: "(string \<rightharpoonup> jsValue) \<Rightarrow> ProductLine list \<Rightarrow> error option" where
  "checkStock m [] = None"
| "checkStock m (item # rest) =
     (case stockOf m (productId item) of
        Num availableStock \<Rightarrow>
          if availableStock < quantity item
          then Some (InsufficientStock (productName item) availableStock (quantity item))
          else checkStock m rest
      | Other \<Rightarrow> checkStock m rest)"

text \<open>
  The body of \<^verbatim>\<open>if (distItem && distItem.quantity > 0)\<close> without the save: the line item
  found loses the deduction; when the quantity it had equals the deduction, the line items
  of the product are filtered out; the total value is recomputed, and a distribution
  without line items becomes cancelled.
\<close>

definition deduct :: "string \<Rightarrow> number \<Rightarrow> DistributionItem \<Rightarrow> Distribution \<Rightarrow> Distribution" where
  "deduct pid deduction distItem lot =
     (let its = updateFirst (\<lambda>di. productId di = pid)
                  (\<lambda>di. di\<lparr>quantity := quantity di - deduction\<rparr>) (Distribution.items lot);
          its' = (if quantity distItem - deduction = 0
                  then filter (\<lambda>di. productId di \<noteq> pid) its else its)
      in lot
           \<lparr>Distribution.items := its',
            Distribution.totalValue := foldl (\<lambda>sum di. sum + price di * quantity di) 0 its',
            Distribution.status := (if its' = [] then cancelled else Distribution.status lot)\<rparr>)"

text \<open>
  The loop that takes one requested line out of the sender's documents, oldest first. It
  carries \<^verbatim>\<open>remainingToDeduct\<close> and the stored distributions; a document that is changed is
  saved at once. The result is the documents as the handler holds them, and the store.
\<close>

fun depleteLoop ::
  "string \<Rightarrow> number \<Rightarrow> Distribution list \<Rightarrow> Distribution list \<Rightarrow>
   Distribution list \<times> Distribution list" where
  "depleteLoop pid remainingToDeduct [] db = ([], db)"
| "depleteLoop pid remainingToDeduct (lot # rest) db =
     (if remainingToDeduct \<le> 0 then (lot # rest, db)
      else
        (case find (\<lambda>di. productId di = pid) (Distribution.items lot) of
           None \<Rightarrow>
             (case depleteLoop pid remainingToDeduct rest db of
                (rest', db') \<Rightarrow> (lot # rest', db'))
         | Some distItem \<Rightarrow>
             if quantity distItem > 0 then
               (let deduction = min remainingToDeduct (quantity distItem);
                    lot' = deduct pid deduction distItem lot
                in case depleteLoop pid (remainingToDeduct - deduction) rest
                          (saveDistribution lot' db) of
                     (rest', db') \<Rightarrow> (lot' # rest', db'))
             else
               (case depleteLoop pid remainingToDeduct rest db of
                  (rest', db') \<Rightarrow> (lot # rest', db'))))"

text \<open>
  The loop over the requested lines. Each line sorts the sender's documents anew; the
  documents are the same objects from line to line, so the next line sees what the
  previous one left.
\<close>

fun depleteAll :: "ProductLine list \<Rightarrow> Distribution list \<Rightarrow> Distribution list \<Rightarrow> Distribution list" where
  "depleteAll [] senderDistributions db = db"
| "depleteAll (item # rest) senderDistributions db =
     (case depleteLoop (productId item) (quantity item) (sortOldestFirst senderDistributions) db of
        (senderDistributions', db') \<Rightarrow> depleteAll rest senderDistributions' db')"

text \<open>\<^verbatim>\<open>itemsToAdd\<close>: the requested lines as line items of a distribution.\<close>

definition itemsToAdd :: "ProductLine list \<Rightarrow> DistributionItem list" where
  "itemsToAdd requested =
     map (\<lambda>item.
            \<lparr>productId = productId item,
             productName = productName item,
             productSku = productSku item,
             category = (if category item = [] then ''Accessories'' else category item),
             quantity = quantity item,
             price = price item,
             DistributionItem.totalValue = price item * quantity item\<rparr>)
         requested"

text \<open>One line item goes into a document of the receiver: onto the line item of its product, or at the end.\<close>

definition addItem :: "DistributionItem list \<Rightarrow> DistributionItem \<Rightarrow> DistributionItem list" where
  "addItem its itemToAdd =
     (case find (\<lambda>di. productId di = productId itemToAdd) its of
        Some _ \<Rightarrow>
          updateFirst (\<lambda>di. productId di = productId itemToAdd)
            (\<lambda>di. di\<lparr>quantity := quantity di + quantity itemToAdd,
                      DistributionItem.totalValue :=
                        price di * (quantity di + quantity itemToAdd)\<rparr>)
            its
      | None \<Rightarrow> its @ [itemToAdd])"

text \<open>
  The loop over the receiver's documents: the first document in which a line item was
  added is saved and ends the loop. The result says whether that happened.
\<close>

fun addToExisting ::
  "DistributionItem list \<Rightarrow> Distribution list \<Rightarrow> Distribution list \<Rightarrow> bool \<times> Distribution list" where
  "addToExisting toAdd [] db = (False, db)"
| "addToExisting toAdd (lot # rest) db =
     (if toAdd \<noteq> [] then
        (let its = foldl addItem (Distribution.items lot) toAdd;
             lot' = lot
               \<lparr>Distribution.items := its,
                Distribution.totalValue :=
                  foldl (\<lambda>sum di. sum + DistributionItem.totalValue di) 0 its\<rparr>
         in (True, saveDistribution lot' db))
      else addToExisting toAdd rest db)"

text \<open>
  The handler. \<open>newId\<close> is the identity that the store gives a new document and \<open>now\<close> the
  reading of the clock. The result is the response (an error, or success) and the stored
  distributions after the request.
\<close>

definition transferStock ::
  "Distribution list \<Rightarrow> string \<Rightarrow> int \<Rightarrow> string \<Rightarrow> string \<Rightarrow> ProductLine list \<Rightarrow> string \<Rightarrow>
   (error + unit) \<times> Distribution list" where
  "transferStock db newId now senderCashierId receiverCashierId requested notesText =
     (if senderCashierId = [] \<or> receiverCashierId = [] \<or> requested = []
      then (Inl MissingRequiredFields, db)
      else if senderCashierId = receiverCashierId then (Inl CannotDistributeToYourself, db)
      else if list_ex (\<lambda>item. productId item = [] \<or> productName item = [] \<or> productSku item = [] \<or>
                               category item = [] \<or> quantity item = 0 \<or> price item = 0) requested
      then (Inl InvalidItemData, db)
      else
        (let senderDistributions = findDistributions senderCashierId [pending, delivered] db
         in case checkStock (senderStock senderDistributions) requested of
              Some e \<Rightarrow> (Inl e, db)
            | None \<Rightarrow>
                (let totalVal = foldl (\<lambda>sum item. sum + price item * quantity item) 0 requested;
                     db' = depleteAll requested senderDistributions db;
                     receiverDistributions = findDistributions receiverCashierId [pending, delivered] db'
                 in case addToExisting (itemsToAdd requested) receiverDistributions db' of
                      (True, db'') \<Rightarrow> (Inr (), db'')
                    | (False, db'') \<Rightarrow>
                        (Inr (),
                         db'' @
                           [\<lparr>docId = newId,
                             adminId = senderCashierId,
                             cashierId = receiverCashierId,
                             items = itemsToAdd requested,
                             totalValue = totalVal,
                             notes' = (if notesText = [] then ''Distribution from cashier'' else notesText),
                             status = delivered,
                             createdAt = now\<rparr>]))))"

section \<open>Notions of the specification\<close>

text \<open>
  \<^verbatim>\<open>availableStock(cashierId, productId)\<close> in the words of the specification: the sum of the
  quantities of the line items of the product over the cashier's pending and delivered
  distributions.
\<close>

definition availableStock :: "Distribution list \<Rightarrow> string \<Rightarrow> string \<Rightarrow> number" where
  "availableStock db cashier pid =
     sum_list (map quantity (filter (\<lambda>di. productId di = pid)
       (concat (map Distribution.items (findDistributions cashier [pending, delivered] db)))))"

text \<open>
  The proportional refund of a requested line in the words of the specification: the
  line total of the original item, divided by its quantity, times the returned quantity.
\<close>

definition proportionalRefund :: "ITransaction \<Rightarrow> ReturnLine \<Rightarrow> number" where
  "proportionalRefund t r =
     (total (ITransaction.items t ! nat (itemIndex r)) /
      quantity (ITransaction.items t ! nat (itemIndex r))) * ReturnLine.quantity r"




definition holdsProduct :: "string \<Rightarrow> Distribution \<Rightarrow> bool" where
  "holdsProduct pid d \<longleftrightarrow> list_ex (\<lambda>item. productId item = pid) (Distribution.items d)"





text \<open>
  The invariant of the data model that a cancelled distribution is a record without
  stock: it has no line items. Both handlers keep it (shown below).
\<close>

definition cancelledAreEmpty :: "Distribution list \<Rightarrow> bool" where
  "cancelledAreEmpty db \<longleftrightarrow>
     list_all (\<lambda>d. Distribution.status d = cancelled \<longrightarrow> Distribution.items d = []) db"

text \<open>
  The notions in which the depletion of the sender is stated: the quantity of a product
  that a distribution holds (the sum over its line items of the product), the stored
  distribution with a given identity, and what it means that \<open>d'\<close> is \<open>d\<close> after \<open>amount\<close> of
  the product has been taken out: the held quantity is smaller by the amount; a product of
  which nothing is held has no line item left; the line items of the other products are
  the same; a distribution without line items is cancelled, and one with line items has
  the status it had; and taking nothing leaves the distribution as it is.
\<close>

definition held :: "string \<Rightarrow> Distribution \<Rightarrow> number" where
  "held pid d =
     sum_list (map quantity (filter (\<lambda>di. productId di = pid) (Distribution.items d)))"

definition stored :: "string \<Rightarrow> Distribution list \<Rightarrow> Distribution option" where
  "stored i db = find (\<lambda>d. docId d = i) db"

definition depletedBy :: "string \<Rightarrow> number \<Rightarrow> Distribution \<Rightarrow> Distribution \<Rightarrow> bool" where
  "depletedBy pid amount d d' \<longleftrightarrow>
     held pid d' = held pid d - amount \<and>
     (held pid d' = 0 \<longrightarrow> \<not> holdsProduct pid d') \<and>
     filter (\<lambda>di. productId di \<noteq> pid) (Distribution.items d') =
       filter (\<lambda>di. productId di \<noteq> pid) (Distribution.items d) \<and>
     (Distribution.items d' = [] \<longrightarrow> Distribution.status d' = cancelled) \<and>
     (Distribution.items d' \<noteq> [] \<longrightarrow> Distribution.status d' = Distribution.status d) \<and>
     (amount = 0 \<longrightarrow> d' = d)"

section \<open>Example data\<close>

text \<open>
  A sale of four pens at 100 with a discount of ten percent, line total 360, by cashier
  \<open>c1\<close>, who holds one delivered distribution with five pens.
\<close>

definition exampleItem :: ITransactionItem where
  "exampleItem = \<lparr>productId = ''p1'', productName = ''Pen'', productSku = ''SKU-1'',
     category = ''Office'', quantity = 4, price = 100, discount = 10, total = 360\<rparr>"

definition exampleTransaction :: ITransaction where
  "exampleTransaction = \<lparr>ITransaction.cashierId = ''c1'', ITransaction.items = [exampleItem],
     returnedItems = [], subtotal = 360, overallDiscount = 0, totalAmount = 360,
     cashReceived = 400, change = 40, ITransaction.status = completed,
     ITransaction.createdAt = 10, updatedAt = 10\<rparr>"

definition exampleLot :: Distribution where
  "exampleLot = \<lparr>docId = ''d1'', adminId = ''admin'', cashierId = ''c1'',
     items = [\<lparr>productId = ''p1'', productName = ''Pen'', productSku = ''SKU-1'',
               category = ''Office'', quantity = 5, price = 100, DistributionItem.totalValue = 500\<rparr>],
     totalValue = 500, notes' = [], status = delivered, createdAt = 1\<rparr>"

definition exampleDb :: Db where
  "exampleDb = \<lparr>transactions = [''t1'' \<mapsto> exampleTransaction], distributions = [exampleLot]\<rparr>"

text \<open>The transaction, the distribution and the store after one pen has been returned at time 20.\<close>

definition exampleAfterFirst :: ITransaction where
  "exampleAfterFirst = exampleTransaction
     \<lparr>returnedItems :=
        [\<lparr>productId = ''p1'', productName = ''Pen'', productSku = ''SKU-1'', category = ''Office'',
          quantity = 1, price = 100, discount = 10, total = 360, returnAmount = 90,
          description = ''No reason provided'', returnedAt = 20\<rparr>],
      subtotal := 270, totalAmount := 270, updatedAt := 20\<rparr>"

definition exampleLotAfterFirst :: Distribution where
  "exampleLotAfterFirst = exampleLot
     \<lparr>Distribution.items :=
        [\<lparr>productId = ''p1'', productName = ''Pen'', productSku = ''SKU-1'',
          category = ''Office'', quantity = 6, price = 100, DistributionItem.totalValue = 600\<rparr>],
      Distribution.totalValue := 600\<rparr>"

definition exampleDbAfterFirst :: Db where
  "exampleDbAfterFirst =
     \<lparr>transactions = [''t1'' \<mapsto> exampleAfterFirst], distributions = [exampleLotAfterFirst]\<rparr>"

text \<open>The transaction after the other three pens have been returned at time 30.\<close>

definition exampleAfterSecond :: ITransaction where
  "exampleAfterSecond = exampleAfterFirst
     \<lparr>returnedItems := returnedItems exampleAfterFirst @
        [\<lparr>productId = ''p1'', productName = ''Pen'', productSku = ''SKU-1'', category = ''Office'',
          quantity = 3, price = 100, discount = 10, total = 360, returnAmount = 270,
          description = ''damaged'', returnedAt = 30\<rparr>],
      subtotal := 0, totalAmount := 0, ITransaction.status := refunded, updatedAt := 30\<rparr>"

text \<open>
  A sale of one lamp with line total 100 and an overall discount of 10, so that the total
  amount is 90.
\<close>

definition exampleDiscounted :: ITransaction where
  "exampleDiscounted = \<lparr>ITransaction.cashierId = ''c1'',
     ITransaction.items =
       [\<lparr>productId = ''p2'', productName = ''Lamp'', productSku = ''SKU-2'',
         category = ''Home'', quantity = 1, price = 100, discount = 0, total = 100\<rparr>],
     returnedItems = [], subtotal = 100, overallDiscount = 10, totalAmount = 90,
     cashReceived = 100, change = 10, ITransaction.status = completed,
     ITransaction.createdAt = 10, updatedAt = 10\<rparr>"

definition exampleDiscountedDb :: Db where
  "exampleDiscountedDb = \<lparr>transactions = [''t2'' \<mapsto> exampleDiscounted], distributions = []\<rparr>"

text \<open>Two lines of a transfer request: two pens, and one bottle of ink.\<close>

definition examplePens :: ProductLine where
  "examplePens = \<lparr>productId = ''p1'', productName = ''Pen'', productSku = ''SKU-1'',
     category = ''Office'', quantity = 2, price = 100\<rparr>"

definition exampleInk :: ProductLine where
  "exampleInk = \<lparr>productId = ''p3'', productName = ''Ink'', productSku = ''SKU-3'',
     category = ''Office'', quantity = 1, price = 50\<rparr>"

text \<open>A newer, cancelled distribution of cashier \<open>c1\<close>, without line items.\<close>

definition exampleEmptyLot :: Distribution where
  "exampleEmptyLot = \<lparr>docId = ''d3'', adminId = ''admin'', cashierId = ''c1'',
     items = [], totalValue = 0, notes' = [], status = cancelled, createdAt = 3\<rparr>"

definition exampleLamp :: ITransactionItem where
  "exampleLamp = \<lparr>productId = ''p2'', productName = ''Lamp'', productSku = ''SKU-2'',
     category = ''Home'', quantity = 1, price = 100, discount = 0, total = 100\<rparr>"

text \<open>
  Cashier \<open>c1\<close> with three delivered distributions of pens, created at 1, 2 and 3 and
  holding 5, 5 and 4, stored in another order; and a request for seven pens.
\<close>

definition fifoLot1 :: Distribution where
  "fifoLot1 = exampleLot"

definition fifoLot2 :: Distribution where
  "fifoLot2 = exampleLot\<lparr>docId := ''d5'', Distribution.createdAt := 2\<rparr>"

definition fifoLot3 :: Distribution where
  "fifoLot3 = \<lparr>docId = ''d6'', adminId = ''admin'', cashierId = ''c1'',
     items = [\<lparr>productId = ''p1'', productName = ''Pen'', productSku = ''SKU-1'',
               category = ''Office'', quantity = 4, price = 100, DistributionItem.totalValue = 400\<rparr>],
     totalValue = 400, notes' = [], status = delivered, createdAt = 3\<rparr>"

definition fivePens :: DistributionItem where
  "fivePens = \<lparr>productId = ''p1'', productName = ''Pen'', productSku = ''SKU-1'',
     category = ''Office'', quantity = 5, price = 100, DistributionItem.totalValue = 500\<rparr>"

definition fourPens :: DistributionItem where
  "fourPens = fivePens\<lparr>quantity := 4, DistributionItem.totalValue := 400\<rparr>"

definition fifoDb :: "Distribution list" where
  "fifoDb = [fifoLot2, fifoLot3, fifoLot1]"

definition sevenPens :: ProductLine where
  "sevenPens = examplePens\<lparr>quantity := 7\<rparr>"

text \<open>
  A sale of two lamps with line total 200 and an overall discount of 10, and the
  transaction after one lamp has been returned at time 20.
\<close>

definition exampleTwoLamps :: ITransaction where
  "exampleTwoLamps = \<lparr>ITransaction.cashierId = ''c1'',
     ITransaction.items =
       [\<lparr>productId = ''p2'', productName = ''Lamp'', productSku = ''SKU-2'',
         category = ''Home'', quantity = 2, price = 100, discount = 0, total = 200\<rparr>],
     returnedItems = [], subtotal = 200, overallDiscount = 10, totalAmount = 190,
     cashReceived = 200, change = 10, ITransaction.status = completed,
     ITransaction.createdAt = 10, updatedAt = 10\<rparr>"

definition exampleTwoLampsDb :: Db where
  "exampleTwoLampsDb = \<lparr>transactions = [''t3'' \<mapsto> exampleTwoLamps], distributions = []\<rparr>"

definition exampleTwoLampsAfter :: ITransaction where
  "exampleTwoLampsAfter = exampleTwoLamps
     \<lparr>returnedItems :=
        [\<lparr>productId = ''p2'', productName = ''Lamp'', productSku = ''SKU-2'', category = ''Home'',
          quantity = 1, price = 100, discount = 0, total = 200, returnAmount = 100,
          description = ''No reason provided'', returnedAt = 20\<rparr>],
      subtotal := 100, totalAmount := 90, updatedAt := 20\<rparr>"

text \<open>
  More lines of transfer requests: three pens, four pens, and two pieces of a product
  whose id is the name of a member of \<^verbatim>\<open>Object.prototype\<close>.
\<close>

definition threePens :: ProductLine where
  "threePens = examplePens\<lparr>quantity := 3\<rparr>"

definition fourPensLine :: ProductLine where
  "fourPensLine = examplePens\<lparr>quantity := 4\<rparr>"

definition constructorLine :: ProductLine where
  "constructorLine = \<lparr>productId = ''constructor'', productName = ''Widget'',
     productSku = ''SKU-9'', category = ''Office'', quantity = 2, price = 10\<rparr>"

text \<open>
  Cashier \<open>c1\<close> with ten pens, before and after two and three pens have been transferred
  to cashier \<open>c2\<close>; the distribution that this transfer creates for \<open>c2\<close>, who had none,
  with one line item for each line of the request; and two later distributions of \<open>c2\<close>
  with five and four pens.
\<close>

definition tenPensLot :: Distribution where
  "tenPensLot = exampleLot
     \<lparr>Distribution.items := [fivePens\<lparr>quantity := 10, DistributionItem.totalValue := 1000\<rparr>],
      Distribution.totalValue := 1000\<rparr>"

definition tenPensLotAfter :: Distribution where
  "tenPensLotAfter = exampleLot
     \<lparr>Distribution.items := [fivePens\<lparr>quantity := 5, DistributionItem.totalValue := 1000\<rparr>],
      Distribution.totalValue := 500\<rparr>"

definition splitLot :: Distribution where
  "splitLot = \<lparr>docId = ''d9'', adminId = ''c1'', cashierId = ''c2'',
     items = [fivePens\<lparr>quantity := 2, DistributionItem.totalValue := 200\<rparr>,
              fivePens\<lparr>quantity := 3, DistributionItem.totalValue := 300\<rparr>],
     totalValue = 500, notes' = ''Distribution from cashier'', status = delivered, createdAt = 20\<rparr>"

definition laterLot5 :: Distribution where
  "laterLot5 = \<lparr>docId = ''d10'', adminId = ''admin'', cashierId = ''c2'',
     items = [fivePens], totalValue = 500, notes' = [], status = delivered, createdAt = 30\<rparr>"

definition laterLot4 :: Distribution where
  "laterLot4 = \<lparr>docId = ''d11'', adminId = ''admin'', cashierId = ''c2'',
     items = [fourPens], totalValue = 400, notes' = [], status = delivered, createdAt = 40\<rparr>"

section \<open>Auxiliary facts\<close>

lemmas return_defs = processReturn_def applyReturn_def validTransaction_def validReturnedItem_def
  validItem_def alreadyReturned_def reinstate_def addRemaining_def targetDistribution_def
  findDistributions_def sortNewestFirst_def saveDistribution_def lotValue_def Let_def

lemmas example_defs = exampleDb_def exampleTransaction_def exampleItem_def exampleLot_def
  exampleAfterFirst_def exampleLotAfterFirst_def exampleDbAfterFirst_def exampleAfterSecond_def
  exampleDiscounted_def exampleDiscountedDb_def examplePens_def exampleInk_def
  exampleEmptyLot_def exampleLamp_def
  fifoLot1_def fifoLot2_def fifoLot3_def fifoDb_def sevenPens_def fivePens_def fourPens_def
  exampleTwoLamps_def exampleTwoLampsDb_def exampleTwoLampsAfter_def threePens_def
  fourPensLine_def constructorLine_def tenPensLot_def tenPensLotAfter_def splitLot_def
  laterLot5_def laterLot4_def

lemmas transfer_defs = transferStock_def findDistributions_def senderStock_def addStock_def
  emptyObject_def objectPrototypeMembers_def stockOf_def sortOldestFirst_def deduct_def
  saveDistribution_def itemsToAdd_def addItem_def Let_def


subsection \<open>The stock record of the sender\<close>

lemma stock_items:
  "stockOf m pid = Num a \<Longrightarrow>
   stockOf (foldl addStock m its) pid =
     Num (a + sum_list (map quantity (filter (\<lambda>di. productId di = pid) its)))"
proof (induction its arbitrary: m a)
  case Nil
  then show ?case by simp
next
  case (Cons item its)
  have "stockOf (addStock m item) pid = Num (if productId item = pid then a + quantity item else a)"
    using Cons.prems by (auto simp: stockOf_def addStock_def split: option.splits jsValue.splits)
  from Cons.IH[OF this] show ?case
    by (simp add: add.assoc)
qed

lemma stock_lots:
  "stockOf m pid = Num a \<Longrightarrow>
   stockOf (foldl (\<lambda>m lot. foldl addStock m (Distribution.items lot)) m ds) pid =
     Num (a + sum_list (map quantity (filter (\<lambda>di. productId di = pid)
                                        (concat (map Distribution.items ds)))))"
proof (induction ds arbitrary: m a)
  case Nil
  then show ?case by simp
next
  case (Cons d ds)
  from Cons.IH[OF stock_items[OF Cons.prems]] show ?case
    by (simp add: add.assoc)
qed

lemma senderStock_sum:
  "pid \<notin> set objectPrototypeMembers \<Longrightarrow>
   stockOf (senderStock ds) pid =
     Num (sum_list (map quantity (filter (\<lambda>di. productId di = pid)
                                    (concat (map Distribution.items ds)))))"
  using stock_lots[of emptyObject pid 0 ds]
  by (simp add: senderStock_def stockOf_def emptyObject_def)

lemma checkStock_None:
  "checkStock m requested = None \<longleftrightarrow>
     (\<forall>item \<in> set requested. \<forall>a. stockOf m (productId item) = Num a \<longrightarrow> \<not> a < quantity item)"
  by (induction requested) (auto split: jsValue.splits)

subsection \<open>A return that succeeds\<close>

text \<open>
  When the loop over the requested lines ends without an error, every index was in range,
  and the new returned items carry the requested quantities and the proportional refunds,
  which add up to the total.
\<close>

lemma returnLoop_Inr:
  "returnLoop t now req R0 new0 ds = (Inr (R, new), ds') \<Longrightarrow>
     (\<forall>r \<in> set req. 0 \<le> itemIndex r \<and> itemIndex r < int (length (ITransaction.items t))) \<and>
     map quantity new = map quantity new0 @ map ReturnLine.quantity req \<and>
     map returnAmount new = map returnAmount new0 @ map (proportionalRefund t) req \<and>
     R = R0 + sum_list (map (proportionalRefund t) req)"
proof (induction req arbitrary: R0 new0 ds)
  case Nil
  then show ?case by simp
next
  case (Cons r rs)
  from Cons.prems have ok: "0 \<le> itemIndex r" "itemIndex r < int (length (ITransaction.items t))"
    by (auto split: if_splits)
  from Cons.prems ok obtain R1 new1 ds1 where
    rec: "returnLoop t now rs R1 new1 ds1 = (Inr (R, new), ds')"
    and R1: "R1 = R0 + proportionalRefund t r"
    and q1: "map quantity new1 = map quantity new0 @ [ReturnLine.quantity r]"
    and a1: "map returnAmount new1 = map returnAmount new0 @ [proportionalRefund t r]"
    by (auto simp: Let_def proportionalRefund_def split: if_splits)
  from Cons.IH[OF rec] ok R1 q1 a1 show ?case by simp
qed

lemma processReturn_Inr:
  assumes "transactions db tid = Some tx"
      and "fst (processReturn db now tid req) = Inr (tx', R)"
  shows "\<exists>new ds. returnLoop tx now req 0 [] (distributions db) = (Inr (R, new), ds) \<and>
           tx' = (applyReturn tx R new)\<lparr>updatedAt := now\<rparr> \<and>
           validTransaction (applyReturn tx R new) \<and>
           snd (processReturn db now tid req) =
             \<lparr>transactions = (transactions db)(tid \<mapsto> tx'), distributions = ds\<rparr>"
  using assms
  by (auto simp: processReturn_def Let_def split: if_splits sum.splits prod.splits)

subsection \<open>Where returned stock goes\<close>













subsection \<open>Cancelled distributions stay without line items\<close>

lemma save_keeps:
  "cancelledAreEmpty db \<Longrightarrow>
   (Distribution.status d = cancelled \<longrightarrow> Distribution.items d = []) \<Longrightarrow>
   cancelledAreEmpty (saveDistribution d db)"
  by (auto simp: cancelledAreEmpty_def saveDistribution_def list_all_iff)

lemma addBackLoop_keeps:
  "cancelledAreEmpty db \<Longrightarrow> cancelledAreEmpty (snd (snd (addBackLoop pid qty remaining lots db)))"
proof (induction lots arbitrary: remaining db)
  case Nil
  then show ?case by simp
next
  case (Cons x xs)
  show ?case
  proof (cases "remaining \<le> 0")
    case True
    with Cons.prems show ?thesis by simp
  next
    case False
    obtain r m its where ab: "addBackItems pid qty remaining (Distribution.items x) = (r, m, its)"
      by (cases "addBackItems pid qty remaining (Distribution.items x)") auto
    let ?x = "x\<lparr>Distribution.items := its, Distribution.totalValue := lotValue its,
                 Distribution.status := (if Distribution.status x = cancelled then pending
                                         else Distribution.status x)\<rparr>"
    have "cancelledAreEmpty (saveDistribution ?x db)"
      using Cons.prems by (intro save_keeps) auto
    from Cons.IH[OF this, of r] Cons.IH[OF Cons.prems, of r] False ab show ?thesis
      by (simp add: Let_def case_prod_unfold)
  qed
qed

lemma addRemaining_keeps:
  "cancelledAreEmpty db \<Longrightarrow> cancelledAreEmpty (addRemaining originalItem remaining docs db)"
  by (auto simp: addRemaining_def Let_def intro!: save_keeps split: option.splits)

lemma reinstate_keeps:
  "cancelledAreEmpty db \<Longrightarrow> cancelledAreEmpty (reinstate c originalItem qty db)"
  using addBackLoop_keeps[of db "productId originalItem" qty qty
      "sortNewestFirst (findDistributions c [pending, delivered, cancelled] db)"]
  by (auto simp: reinstate_def case_prod_unfold intro: addRemaining_keeps)

lemma returnLoop_keeps:
  "cancelledAreEmpty ds \<Longrightarrow> cancelledAreEmpty (snd (returnLoop t now req R new ds))"
  by (induction req arbitrary: R new ds) (simp_all add: Let_def reinstate_keeps)

lemma processReturn_keeps:
  assumes inv: "cancelledAreEmpty (distributions db)"
  shows "cancelledAreEmpty (distributions (snd (processReturn db now tid req)))"
proof (cases "transactions db tid")
  case None
  with inv show ?thesis by (simp add: processReturn_def)
next
  case (Some t)
  obtain res ds where loop: "returnLoop t now req 0 [] (distributions db) = (res, ds)"
    by (cases "returnLoop t now req 0 [] (distributions db)") auto
  with returnLoop_keeps[OF inv, of t now req 0 "[]"] have "cancelledAreEmpty ds"
    by simp
  with inv Some loop show ?thesis
    by (auto simp: processReturn_def Let_def split: sum.splits prod.splits)
qed

lemma deduct_keeps:
  assumes "find (\<lambda>di. productId di = pid) (Distribution.items lot) = Some x"
      and "Distribution.status lot = cancelled \<longrightarrow> Distribution.items lot = []"
  shows "Distribution.status (deduct pid amount x lot) = cancelled \<longrightarrow>
         Distribution.items (deduct pid amount x lot) = []"
proof -
  from assms(1) have "Distribution.items lot \<noteq> []" by auto
  with assms(2) have "Distribution.status lot \<noteq> cancelled" by blast
  then show ?thesis by (simp add: deduct_def Let_def)
qed

lemma depleteLoop_keeps:
  "cancelledAreEmpty lots \<Longrightarrow> cancelledAreEmpty db \<Longrightarrow>
   cancelledAreEmpty (fst (depleteLoop pid remaining lots db)) \<and>
   cancelledAreEmpty (snd (depleteLoop pid remaining lots db))"
proof (induction lots arbitrary: remaining db)
  case Nil
  then show ?case by simp
next
  case (Cons lot rest)
  from Cons.prems(1) have lot: "Distribution.status lot = cancelled \<longrightarrow> Distribution.items lot = []"
    and rest: "cancelledAreEmpty rest"
    by (simp_all add: cancelledAreEmpty_def)
  show ?case
  proof (cases "find (\<lambda>di. productId di = pid) (Distribution.items lot)")
    case None
    with Cons.IH[OF rest Cons.prems(2), of remaining] Cons.prems lot show ?thesis
      by (simp add: case_prod_unfold cancelledAreEmpty_def)
  next
    case (Some x)
    let ?d = "deduct pid (min remaining (quantity x)) x lot"
    note k = deduct_keeps[OF Some lot, of "min remaining (quantity x)"]
    have "cancelledAreEmpty (saveDistribution ?d db)"
      using Cons.prems(2) k by (rule save_keeps)
    from Cons.IH[OF rest this, of "remaining - min remaining (quantity x)"]
         Cons.IH[OF rest Cons.prems(2), of remaining] Cons.prems lot k Some
    show ?thesis
      by (simp add: case_prod_unfold Let_def cancelledAreEmpty_def)
  qed
qed

lemma depleteAll_keeps:
  "cancelledAreEmpty docs \<Longrightarrow> cancelledAreEmpty db \<Longrightarrow>
   cancelledAreEmpty (depleteAll requested docs db)"
proof (induction requested arbitrary: docs db)
  case Nil
  then show ?case by simp
next
  case (Cons item rest)
  have "cancelledAreEmpty (sortOldestFirst docs)"
    using Cons.prems(1) by (simp add: cancelledAreEmpty_def list_all_iff sortOldestFirst_def)
  from depleteLoop_keeps[OF this Cons.prems(2), of "productId item" "quantity item"]
  show ?case
    by (simp add: case_prod_unfold Cons.IH del: depleteLoop.simps)
qed

lemma addToExisting_keeps:
  "(\<And>r. r \<in> set rs \<Longrightarrow> Distribution.status r \<noteq> cancelled) \<Longrightarrow> cancelledAreEmpty db \<Longrightarrow>
   cancelledAreEmpty (snd (addToExisting toAdd rs db))"
  by (induction rs) (auto simp: Let_def intro!: save_keeps)

lemma transferStock_keeps:
  assumes "cancelledAreEmpty db"
  shows "cancelledAreEmpty (snd (transferStock db newId now sender receiver requested notesText))"
proof -
  let ?S = "findDistributions sender [pending, delivered] db"
  have S: "cancelledAreEmpty ?S"
    using assms by (simp add: cancelledAreEmpty_def list_all_iff findDistributions_def)
  let ?db = "depleteAll requested ?S db"
  have db': "cancelledAreEmpty ?db"
    using S assms by (rule depleteAll_keeps)
  have "cancelledAreEmpty
      (snd (addToExisting (itemsToAdd requested) (findDistributions receiver [pending, delivered] ?db) ?db))"
    using db' by (intro addToExisting_keeps) (auto simp: findDistributions_def)
  then have "cancelledAreEmpty
      (snd (addToExisting (itemsToAdd requested) (findDistributions receiver [pending, delivered] ?db) ?db) @
       [x])" if "Distribution.status x = delivered" for x
    using that by (simp add: cancelledAreEmpty_def)
  with assms \<open>cancelledAreEmpty
      (snd (addToExisting (itemsToAdd requested) (findDistributions receiver [pending, delivered] ?db) ?db))\<close>
  show ?thesis
    by (auto simp: transferStock_def Let_def split: option.splits prod.splits bool.splits)
qed

subsection \<open>Depletion of three distributions\<close>

lemma sortOldestFirst_three:
  assumes "set S = {l1, l2, l3}" "distinct S"
      and "Distribution.createdAt l1 < Distribution.createdAt l2"
      and "Distribution.createdAt l2 < Distribution.createdAt l3"
  shows "sortOldestFirst S = [l1, l2, l3]"
proof -
  let ?f = "Distribution.createdAt"
  let ?T = "sort_key ?f S"
  have inj: "inj_on ?f {l1, l2, l3}"
    using assms(3,4) by (auto simp: inj_on_def)
  have setT: "set ?T = {l1, l2, l3}" using assms(1) by simp
  have "sorted (map ?f ?T)" by simp
  moreover have "distinct (map ?f ?T)"
    using assms(2) inj setT by (simp add: distinct_map)
  moreover have "sorted (map ?f [l1, l2, l3])" "distinct (map ?f [l1, l2, l3])"
    using assms(3,4) by auto
  moreover have "set (map ?f ?T) = set (map ?f [l1, l2, l3])"
    using setT by simp
  ultimately have "map ?f ?T = map ?f [l1, l2, l3]"
    by (rule sorted_distinct_set_unique)
  moreover have "inj_on ?f (set ?T \<union> set [l1, l2, l3])"
    using inj setT by simp
  ultimately have "?T = [l1, l2, l3]"
    by (simp only: inj_on_map_eq_map)
  then show ?thesis by (simp add: sortOldestFirst_def)
qed

lemma sum_concat_held:
  "sum_list (map quantity (filter (\<lambda>di. productId di = pid) (concat (map Distribution.items S)))) =
   sum_list (map (held pid) S)"
  by (induction S) (simp_all add: held_def)

lemma senderStock_three:
  assumes "pid \<notin> set objectPrototypeMembers"
      and "set S = {l1, l2, l3}" "distinct S" "l1 \<noteq> l2" "l2 \<noteq> l3" "l1 \<noteq> l3"
  shows "stockOf (senderStock S) pid = Num (held pid l1 + held pid l2 + held pid l3)"
proof -
  have "sum_list (map (held pid) S) = sum (held pid) (set S)"
    using assms(3) by (rule sum_list_distinct_conv_sum_set)
  also have "\<dots> = held pid l1 + held pid l2 + held pid l3"
    using assms(2,4,5,6) by simp
  finally show ?thesis
    by (simp add: senderStock_sum[OF assms(1)] sum_concat_held)
qed

lemma find_single:
  "filter P xs = [x] \<Longrightarrow> find P xs = Some x"
  by (induction xs) (auto split: if_splits)

lemma held_single:
  "filter (\<lambda>di. productId di = pid) (Distribution.items d) = [x] \<Longrightarrow> held pid d = quantity x"
  by (simp add: held_def)

lemma filter_updateFirst_same:
  "(\<And>x. P (f x) = P x) \<Longrightarrow> filter P (updateFirst P f xs) = updateFirst P f (filter P xs)"
  by (induction xs) auto

lemma filter_updateFirst_other:
  "(\<And>x. P (f x) = P x) \<Longrightarrow> filter (\<lambda>x. \<not> P x) (updateFirst P f xs) = filter (\<lambda>x. \<not> P x) xs"
  by (induction xs) auto

lemma deduct_depletedBy:
  assumes one: "filter (\<lambda>di. productId di = pid) (Distribution.items d) = [x]"
      and "0 < amount" "amount \<le> quantity x"
  shows "depletedBy pid amount d (deduct pid amount x d)"
proof -
  let ?P = "\<lambda>di. productId di = pid"
  let ?f = "\<lambda>di::DistributionItem. di\<lparr>quantity := quantity di - amount\<rparr>"
  let ?its = "updateFirst ?P ?f (Distribution.items d)"
  have "x \<in> set (filter ?P (Distribution.items d))"
    by (simp add: one)
  then have px: "productId x = pid"
    by simp
  have same: "filter ?P ?its = [?f x]"
    by (subst filter_updateFirst_same) (simp_all add: one px)
  have other: "filter (\<lambda>di. productId di \<noteq> pid) ?its =
      filter (\<lambda>di. productId di \<noteq> pid) (Distribution.items d)"
    using filter_updateFirst_other[of ?P ?f "Distribution.items d"] by simp
  have nonempty: "?its \<noteq> []"
    using same by (metis filter.simps(1) list.distinct(1))
  show ?thesis
  proof (cases "quantity x - amount = 0")
    case True
    then show ?thesis
      using other assms(2)
      by (simp add: depletedBy_def deduct_def Let_def held_def one holdsProduct_def list_ex_iff)
  next
    case False
    then show ?thesis
      using other same nonempty assms(2)
      by (simp add: depletedBy_def deduct_def Let_def held_def one)
  qed
qed

lemma deduct_ids [simp]:
  "docId (deduct pid amount x d) = docId d"
  "Distribution.cashierId (deduct pid amount x d) = Distribution.cashierId d"
  by (simp_all add: deduct_def Let_def)

lemma depletedBy_zero:
  "filter (\<lambda>di. productId di = pid) (Distribution.items d) = [x] \<Longrightarrow> 0 < quantity x \<Longrightarrow>
   depletedBy pid 0 d d"
  by (auto simp: depletedBy_def held_def)

lemma stored_save:
  "stored i (saveDistribution d db) =
     (if i = docId d then map_option (\<lambda>_. d) (stored i db) else stored i db)"
  by (induction db) (auto simp: stored_def saveDistribution_def)

lemma stored_mem:
  "distinct (map docId db) \<Longrightarrow> l \<in> set db \<Longrightarrow> stored (docId l) db = Some l"
  by (induction db) (auto simp: stored_def)

lemma docIds_save [simp]:
  "map docId (saveDistribution d db) = map docId db"
  by (induction db) (auto simp: saveDistribution_def)

lemma stored_append:
  "stored i db = Some x \<Longrightarrow> stored i (db @ ys) = Some x"
  by (induction db) (auto simp: stored_def split: if_splits)

lemma addToExisting_stored:
  "(\<And>r. r \<in> set rs \<Longrightarrow> docId r \<noteq> i) \<Longrightarrow>
   stored i (snd (addToExisting toAdd rs db)) = stored i db"
  by (induction rs) (auto simp: Let_def stored_save)


lemma depleteLoop_three:
  assumes f1: "filter (\<lambda>di. productId di = pid) (Distribution.items l1) = [x1]"
      and f2: "filter (\<lambda>di. productId di = pid) (Distribution.items l2) = [x2]"
      and f3: "filter (\<lambda>di. productId di = pid) (Distribution.items l3) = [x3]"
      and pos: "0 < quantity x1" "0 < quantity x2" "0 < quantity x3"
      and Q: "0 < Q" "Q \<le> quantity x1 + quantity x2 + quantity x3"
  shows "snd (depleteLoop pid Q [l1, l2, l3] db) =
     (if Q \<le> quantity x1 then saveDistribution (deduct pid Q x1 l1) db
      else if Q \<le> quantity x1 + quantity x2
      then saveDistribution (deduct pid (Q - quantity x1) x2 l2)
             (saveDistribution (deduct pid (quantity x1) x1 l1) db)
      else saveDistribution (deduct pid (Q - quantity x1 - quantity x2) x3 l3)
             (saveDistribution (deduct pid (quantity x2) x2 l2)
                (saveDistribution (deduct pid (quantity x1) x1 l1) db)))"
  using pos Q
  by (simp add: find_single[OF f1] find_single[OF f2] find_single[OF f3] Let_def min_def)

lemma deplete_three_stored:
  assumes f1: "filter (\<lambda>di. productId di = pid) (Distribution.items l1) = [x1]"
      and f2: "filter (\<lambda>di. productId di = pid) (Distribution.items l2) = [x2]"
      and f3: "filter (\<lambda>di. productId di = pid) (Distribution.items l3) = [x3]"
      and pos: "0 < quantity x1" "0 < quantity x2" "0 < quantity x3"
      and Q: "0 < Q" "Q \<le> quantity x1 + quantity x2 + quantity x3"
      and ids: "distinct (map docId db)"
      and mem: "l1 \<in> set db" "l2 \<in> set db" "l3 \<in> set db"
      and ne: "docId l1 \<noteq> docId l2" "docId l2 \<noteq> docId l3" "docId l1 \<noteq> docId l3"
      and d1: "d1 = min Q (quantity x1)"
      and d2: "d2 = min (Q - d1) (quantity x2)"
      and d3: "d3 = Q - d1 - d2"
      and db1: "db1 = snd (depleteLoop pid Q [l1, l2, l3] db)"
  shows "\<exists>l1' l2' l3'.
           stored (docId l1) db1 = Some l1' \<and> depletedBy pid d1 l1 l1' \<and>
           stored (docId l2) db1 = Some l2' \<and> depletedBy pid d2 l2 l2' \<and>
           stored (docId l3) db1 = Some l3' \<and> depletedBy pid d3 l3 l3' \<and>
           Distribution.cashierId l1' = Distribution.cashierId l1 \<and>
           Distribution.cashierId l2' = Distribution.cashierId l2 \<and>
           Distribution.cashierId l3' = Distribution.cashierId l3"
proof -
  note s = stored_mem[OF ids mem(1)] stored_mem[OF ids mem(2)] stored_mem[OF ids mem(3)]
  note z = depletedBy_zero[OF f1 pos(1)] depletedBy_zero[OF f2 pos(2)] depletedBy_zero[OF f3 pos(3)]
  consider (a) "Q \<le> quantity x1"
    | (b) "quantity x1 < Q" "Q \<le> quantity x1 + quantity x2"
    | (c) "quantity x1 + quantity x2 < Q"
    using pos by linarith
  then show ?thesis
  proof cases
    case a
    then have ds: "d1 = Q" "d2 = 0" "d3 = 0"
      using pos by (simp_all add: d1 d2 d3 min_def)
    have db: "db1 = saveDistribution (deduct pid Q x1 l1) db"
      unfolding db1 depleteLoop_three[OF f1 f2 f3 pos Q] using a by simp
    have "depletedBy pid Q l1 (deduct pid Q x1 l1)"
      using a Q(1) by (intro deduct_depletedBy[OF f1])
    then show ?thesis
      using z s ne by (simp add: ds db stored_save)
  next
    case b
    then have ds: "d1 = quantity x1" "d2 = Q - quantity x1" "d3 = 0"
      by (simp_all add: d1 d2 d3 min_def)
    have db: "db1 = saveDistribution (deduct pid (Q - quantity x1) x2 l2)
             (saveDistribution (deduct pid (quantity x1) x1 l1) db)"
      unfolding db1 depleteLoop_three[OF f1 f2 f3 pos Q] using b by simp
    have "depletedBy pid (quantity x1) l1 (deduct pid (quantity x1) x1 l1)"
      using pos(1) by (intro deduct_depletedBy[OF f1]) simp_all
    moreover have "depletedBy pid (Q - quantity x1) l2 (deduct pid (Q - quantity x1) x2 l2)"
      using b by (intro deduct_depletedBy[OF f2]) simp_all
    ultimately show ?thesis
      using z s ne by (simp add: ds db stored_save)
  next
    case c
    then have ds: "d1 = quantity x1" "d2 = quantity x2" "d3 = Q - quantity x1 - quantity x2"
      using pos by (simp_all add: d1 d2 d3 min_def)
    have db: "db1 = saveDistribution (deduct pid (Q - quantity x1 - quantity x2) x3 l3)
             (saveDistribution (deduct pid (quantity x2) x2 l2)
                (saveDistribution (deduct pid (quantity x1) x1 l1) db))"
      unfolding db1 depleteLoop_three[OF f1 f2 f3 pos Q] using c pos by simp
    have "depletedBy pid (quantity x1) l1 (deduct pid (quantity x1) x1 l1)"
      using pos(1) by (intro deduct_depletedBy[OF f1]) simp_all
    moreover have "depletedBy pid (quantity x2) l2 (deduct pid (quantity x2) x2 l2)"
      using pos(2) by (intro deduct_depletedBy[OF f2]) simp_all
    moreover have "depletedBy pid (Q - quantity x1 - quantity x2) l3
        (deduct pid (Q - quantity x1 - quantity x2) x3 l3)"
      using c Q(2) by (intro deduct_depletedBy[OF f3]) simp_all
    ultimately show ?thesis
      using s ne by (simp add: ds db stored_save)
  qed
qed

lemma docIds_depleteLoop:
  "map docId (snd (depleteLoop pid Q lots db)) = map docId db"
  by (induction lots arbitrary: Q db)
     (simp_all add: Let_def case_prod_unfold split: option.splits)


subsection \<open>Requests that are refused, and requests that are accepted\<close>













subsection \<open>What the transfer does outside its two defects\<close>

text \<open>
  A line whose product id is not the name of a member of \<^verbatim>\<open>Object.prototype\<close> and that asks
  for more than the sender holds of the product ends the transfer before any change.
\<close>

lemma transfer_rejected_on_line_shortfall:
  assumes "\<exists>item \<in> set requested. productId item \<notin> set objectPrototypeMembers \<and>
             availableStock db sender (productId item) < quantity item"
  shows "\<exists>e. transferStock db newId now sender receiver requested notesText = (Inl e, db)"
proof -
  from assms obtain item where item: "item \<in> set requested"
    "productId item \<notin> set objectPrototypeMembers"
    "availableStock db sender (productId item) < quantity item"
    by blast
  from senderStock_sum[OF item(2), of "findDistributions sender [pending, delivered] db"] item(1,3)
  have "checkStock (senderStock (findDistributions sender [pending, delivered] db)) requested \<noteq> None"
    unfolding checkStock_None availableStock_def by blast
  then show ?thesis
    by (auto simp: transferStock_def)
qed

text \<open>
  A transfer of one line from three distributions that each have exactly one line item of
  the product takes from the oldest first.
\<close>

lemma deplete_three_lots:
  assumes plain: "productId item \<notin> set objectPrototypeMembers"
      and req: "sender \<noteq> []" "receiver \<noteq> []" "sender \<noteq> receiver"
      and item: "productId item \<noteq> []" "productName item \<noteq> []" "productSku item \<noteq> []"
                "category item \<noteq> []" "price item \<noteq> 0"
      and ids: "distinct (map docId db)"
      and lots: "set (findDistributions sender [pending, delivered] db) = {l1, l2, l3}"
      and order: "Distribution.createdAt l1 < Distribution.createdAt l2"
                 "Distribution.createdAt l2 < Distribution.createdAt l3"
      and f1: "filter (\<lambda>di. productId di = productId item) (Distribution.items l1) = [x1]"
      and f2: "filter (\<lambda>di. productId di = productId item) (Distribution.items l2) = [x2]"
      and f3: "filter (\<lambda>di. productId di = productId item) (Distribution.items l3) = [x3]"
      and pos: "0 < quantity x1" "0 < quantity x2" "0 < quantity x3"
      and Q: "0 < quantity item" "quantity item \<le> quantity x1 + quantity x2 + quantity x3"
  shows "fst (transferStock db newId now sender receiver [item] notesText) = Inr () \<and>
     (\<exists>l1' l2' l3'.
        stored (docId l1) (snd (transferStock db newId now sender receiver [item] notesText)) = Some l1' \<and>
        stored (docId l2) (snd (transferStock db newId now sender receiver [item] notesText)) = Some l2' \<and>
        stored (docId l3) (snd (transferStock db newId now sender receiver [item] notesText)) = Some l3' \<and>
        depletedBy (productId item) (min (quantity item) (quantity x1)) l1 l1' \<and>
        depletedBy (productId item)
          (min (quantity item - min (quantity item) (quantity x1)) (quantity x2)) l2 l2' \<and>
        depletedBy (productId item)
          (quantity item - min (quantity item) (quantity x1) -
             min (quantity item - min (quantity item) (quantity x1)) (quantity x2)) l3 l3' \<and>
        (quantity item \<le> quantity x1 + quantity x2 \<longrightarrow> l3' = l3))"
proof -
  let ?p = "productId item" and ?Q = "quantity item"
  let ?S = "findDistributions sender [pending, delivered] db"
  let ?T = "transferStock db newId now sender receiver [item] notesText"
  have dist_db: "distinct db"
    using ids by (simp add: distinct_map)
  then have dist_S: "distinct ?S"
    by (simp add: findDistributions_def)
  have ne: "l1 \<noteq> l2" "l2 \<noteq> l3" "l1 \<noteq> l3"
    using order by auto
  have sorted: "sortOldestFirst ?S = [l1, l2, l3]"
    using lots dist_S order by (rule sortOldestFirst_three)
  have inS: "l1 \<in> set ?S" "l2 \<in> set ?S" "l3 \<in> set ?S"
    using lots by simp_all
  then have mem: "l1 \<in> set db" "l2 \<in> set db" "l3 \<in> set db"
    and own: "Distribution.cashierId l1 = sender" "Distribution.cashierId l2 = sender"
             "Distribution.cashierId l3 = sender"
    by (simp_all add: findDistributions_def)
  have "inj_on docId (set db)"
    using ids by (simp add: distinct_map)
  with mem ne have idne: "docId l1 \<noteq> docId l2" "docId l2 \<noteq> docId l3" "docId l1 \<noteq> docId l3"
    by (auto simp: inj_on_def)
  have "stockOf (senderStock ?S) ?p = Num (quantity x1 + quantity x2 + quantity x3)"
    using senderStock_three[OF plain lots dist_S ne]
    by (simp add: held_single[OF f1] held_single[OF f2] held_single[OF f3])
  with Q(2) have check: "checkStock (senderStock ?S) [item] = None"
    by simp
  define db1 where "db1 = snd (depleteLoop ?p ?Q [l1, l2, l3] db)"
  have dep: "depleteAll [item] ?S db = db1"
    by (simp add: sorted db1_def case_prod_unfold del: depleteLoop.simps)
  have ids1: "distinct (map docId db1)"
    unfolding db1_def docIds_depleteLoop by (rule ids)
  from deplete_three_stored[OF f1 f2 f3 pos Q ids mem idne refl refl refl db1_def]
  obtain l1' l2' l3' where
    st: "stored (docId l1) db1 = Some l1'" "stored (docId l2) db1 = Some l2'"
        "stored (docId l3) db1 = Some l3'"
    and dp: "depletedBy ?p (min ?Q (quantity x1)) l1 l1'"
        "depletedBy ?p (min (?Q - min ?Q (quantity x1)) (quantity x2)) l2 l2'"
        "depletedBy ?p (?Q - min ?Q (quantity x1) - min (?Q - min ?Q (quantity x1)) (quantity x2))
           l3 l3'"
    and ow: "Distribution.cashierId l1' = Distribution.cashierId l1"
        "Distribution.cashierId l2' = Distribution.cashierId l2"
        "Distribution.cashierId l3' = Distribution.cashierId l3"
    by blast
  let ?R = "findDistributions receiver [pending, delivered] db1"
  have other: "docId r \<noteq> docId l1 \<and> docId r \<noteq> docId l2 \<and> docId r \<noteq> docId l3"
    if "r \<in> set ?R" for r
  proof -
    from that have r: "r \<in> set db1" "Distribution.cashierId r = receiver"
      by (simp_all add: findDistributions_def)
    from stored_mem[OF ids1 r(1)] st ow own r(2) req(3) show ?thesis
      by auto
  qed
  let ?A = "addToExisting (itemsToAdd [item]) ?R db1"
  have keep: "stored (docId l1) (snd ?A) = Some l1'" "stored (docId l2) (snd ?A) = Some l2'"
    "stored (docId l3) (snd ?A) = Some l3'"
    using other st by (simp_all add: addToExisting_stored)
  have T: "?T = (if fst ?A then (Inr (), snd ?A)
                 else (Inr (), snd ?A @
                   [\<lparr>docId = newId, adminId = sender, cashierId = receiver,
                     items = itemsToAdd [item],
                     totalValue = foldl (\<lambda>sum item. sum + price item * quantity item) 0 [item],
                     notes' = (if notesText = [] then ''Distribution from cashier'' else notesText),
                     status = delivered, createdAt = now\<rparr>]))"
    using req item Q(1) check
    by (simp add: transferStock_def Let_def dep case_prod_unfold split: bool.splits
        del: depleteLoop.simps depleteAll.simps)
  have l3: "l3' = l3" if "?Q \<le> quantity x1 + quantity x2"
  proof -
    from that pos(2)
    have "?Q - min ?Q (quantity x1) - min (?Q - min ?Q (quantity x1)) (quantity x2) = 0"
      by (simp add: min_def)
    with dp(3) show ?thesis by (simp add: depletedBy_def)
  qed
  show ?thesis
  proof (cases "fst ?A")
    case True
    with T have "?T = (Inr (), snd ?A)" by simp
    with keep dp l3 show ?thesis by auto
  next
    case False
    with T keep have "fst ?T = Inr ()"
      "stored (docId l1) (snd ?T) = Some l1'" "stored (docId l2) (snd ?T) = Some l2'"
      "stored (docId l3) (snd ?T) = Some l3'"
      by (simp_all add: stored_append)
    with dp l3 show ?thesis by auto
  qed
qed



text \<open>
  The scenario of the specification with a third distribution: of 5, 5 and 4 pens, a
  transfer of seven takes five from the oldest distribution, which is left without line
  items and cancelled, two from the second, which keeps three, and none from the third.
\<close>

lemma deplete_three_lots_example:
  "productId sevenPens \<notin> set objectPrototypeMembers \<and>
   ''c1'' \<noteq> [] \<and> ''c2'' \<noteq> [] \<and> ''c1'' \<noteq> ''c2'' \<and>
   productId sevenPens \<noteq> [] \<and> productName sevenPens \<noteq> [] \<and> productSku sevenPens \<noteq> [] \<and>
   category sevenPens \<noteq> [] \<and> price sevenPens \<noteq> 0 \<and>
   distinct (map docId fifoDb) \<and>
   set (findDistributions ''c1'' [pending, delivered] fifoDb) = {fifoLot1, fifoLot2, fifoLot3} \<and>
   Distribution.createdAt fifoLot1 < Distribution.createdAt fifoLot2 \<and>
   Distribution.createdAt fifoLot2 < Distribution.createdAt fifoLot3 \<and>
   filter (\<lambda>di. productId di = productId sevenPens) (Distribution.items fifoLot1) = [fivePens] \<and>
   filter (\<lambda>di. productId di = productId sevenPens) (Distribution.items fifoLot2) = [fivePens] \<and>
   filter (\<lambda>di. productId di = productId sevenPens) (Distribution.items fifoLot3) = [fourPens] \<and>
   0 < quantity fivePens \<and> 0 < quantity fourPens \<and>
   0 < quantity sevenPens \<and>
   quantity sevenPens \<le> quantity fivePens + quantity fivePens + quantity fourPens \<and>
   fst (transferStock fifoDb ''d9'' 50 ''c1'' ''c2'' [sevenPens] []) = Inr () \<and>
   (\<exists>l1' l2' l3'.
      stored (docId fifoLot1) (snd (transferStock fifoDb ''d9'' 50 ''c1'' ''c2'' [sevenPens] [])) = Some l1' \<and>
      stored (docId fifoLot2) (snd (transferStock fifoDb ''d9'' 50 ''c1'' ''c2'' [sevenPens] [])) = Some l2' \<and>
      stored (docId fifoLot3) (snd (transferStock fifoDb ''d9'' 50 ''c1'' ''c2'' [sevenPens] [])) = Some l3' \<and>
      depletedBy (productId sevenPens) (min (quantity sevenPens) (quantity fivePens)) fifoLot1 l1' \<and>
      depletedBy (productId sevenPens)
        (min (quantity sevenPens - min (quantity sevenPens) (quantity fivePens)) (quantity fivePens))
        fifoLot2 l2' \<and>
      depletedBy (productId sevenPens)
        (quantity sevenPens - min (quantity sevenPens) (quantity fivePens) -
           min (quantity sevenPens - min (quantity sevenPens) (quantity fivePens)) (quantity fivePens))
        fifoLot3 l3' \<and>
      (quantity sevenPens \<le> quantity fivePens + quantity fivePens \<longrightarrow> l3' = fifoLot3)) \<and>
   stored ''d1'' (snd (transferStock fifoDb ''d9'' 50 ''c1'' ''c2'' [sevenPens] [])) =
     Some (fifoLot1\<lparr>Distribution.items := [], Distribution.totalValue := 0,
                     Distribution.status := cancelled\<rparr>) \<and>
   stored ''d5'' (snd (transferStock fifoDb ''d9'' 50 ''c1'' ''c2'' [sevenPens] [])) =
     Some (fifoLot2\<lparr>Distribution.items := [fivePens\<lparr>quantity := 3\<rparr>],
                     Distribution.totalValue := 300\<rparr>) \<and>
   stored ''d6'' (snd (transferStock fifoDb ''d9'' 50 ''c1'' ''c2'' [sevenPens] [])) = Some fifoLot3"
proof -
  have h0: "productId sevenPens \<notin> set objectPrototypeMembers"
    by (simp add: objectPrototypeMembers_def example_defs)
  have h1: "''c1'' \<noteq> []" and h2: "''c2'' \<noteq> []" and h3: "''c1'' \<noteq> ''c2''"
    by simp_all
  have h4: "productId sevenPens \<noteq> []" and h5: "productName sevenPens \<noteq> []"
    and h6: "productSku sevenPens \<noteq> []" and h7: "category sevenPens \<noteq> []"
    and h8: "price sevenPens \<noteq> 0"
    by (simp_all add: example_defs)
  have h9: "distinct (map docId fifoDb)"
    by (simp add: example_defs)
  have h10: "set (findDistributions ''c1'' [pending, delivered] fifoDb) =
      {fifoLot1, fifoLot2, fifoLot3}"
    by (auto simp: findDistributions_def example_defs)
  have h11: "Distribution.createdAt fifoLot1 < Distribution.createdAt fifoLot2"
    and h12: "Distribution.createdAt fifoLot2 < Distribution.createdAt fifoLot3"
    by (simp_all add: example_defs)
  have h13: "filter (\<lambda>di. productId di = productId sevenPens) (Distribution.items fifoLot1) =
      [fivePens]"
    and h14: "filter (\<lambda>di. productId di = productId sevenPens) (Distribution.items fifoLot2) =
      [fivePens]"
    and h15: "filter (\<lambda>di. productId di = productId sevenPens) (Distribution.items fifoLot3) =
      [fourPens]"
    by (simp_all add: example_defs)
  have h16: "0 < quantity fivePens" and h17: "0 < quantity fourPens"
    and h18: "0 < quantity sevenPens"
    and h19: "quantity sevenPens \<le> quantity fivePens + quantity fivePens + quantity fourPens"
    by (simp_all add: example_defs)
  note r = deplete_three_lots
      [where newId = "''d9''" and now = 50 and notesText = "[]",
       OF h0 h1 h2 h3 h4 h5 h6 h7 h8 h9 h10 h11 h12 h13 h14 h15 h16 h16 h17 h18 h19]
  have T: "snd (transferStock fifoDb ''d9'' 50 ''c1'' ''c2'' [sevenPens] []) =
      [fifoLot2\<lparr>Distribution.items := [fivePens\<lparr>quantity := 3\<rparr>],
                Distribution.totalValue := 300\<rparr>,
       fifoLot3,
       fifoLot1\<lparr>Distribution.items := [], Distribution.totalValue := 0,
                Distribution.status := cancelled\<rparr>,
       \<lparr>docId = ''d9'', adminId = ''c1'', cashierId = ''c2'',
         items = itemsToAdd [sevenPens], totalValue = 700,
         notes' = ''Distribution from cashier'', status = delivered, createdAt = 50\<rparr>]"
    by (simp add: transfer_defs example_defs)
  have e1: "stored ''d1'' (snd (transferStock fifoDb ''d9'' 50 ''c1'' ''c2'' [sevenPens] [])) =
     Some (fifoLot1\<lparr>Distribution.items := [], Distribution.totalValue := 0,
                     Distribution.status := cancelled\<rparr>)"
    and e2: "stored ''d5'' (snd (transferStock fifoDb ''d9'' 50 ''c1'' ''c2'' [sevenPens] [])) =
     Some (fifoLot2\<lparr>Distribution.items := [fivePens\<lparr>quantity := 3\<rparr>],
                     Distribution.totalValue := 300\<rparr>)"
    and e3: "stored ''d6'' (snd (transferStock fifoDb ''d9'' 50 ''c1'' ''c2'' [sevenPens] [])) =
     Some fifoLot3"
    unfolding T by (simp_all add: stored_def example_defs)
  show ?thesis
    by (intro conjI h0 h1 h2 h3 h4 h5 h6 h7 h8 h9 h10 h11 h12 h13 h14 h15 h16 h17 h18 h19
        r[THEN conjunct1] r[THEN conjunct2] e1 e2 e3)
qed

subsection \<open>The examples, evaluated\<close>

lemma example_found: "transactions exampleDb ''t1'' = Some exampleTransaction"
  by (simp add: exampleDb_def)

lemma example_found_after_first: "transactions exampleDbAfterFirst ''t1'' = Some exampleAfterFirst"
  by (simp add: exampleDbAfterFirst_def)

lemma example_first_return:
  "processReturn exampleDb 20 ''t1'' [\<lparr>itemIndex = 0, quantity = 1, description = []\<rparr>] =
     (Inr (exampleAfterFirst, 90), exampleDbAfterFirst)"
  by (simp add: return_defs example_defs)

lemma example_second_return:
  "fst (processReturn exampleDbAfterFirst 30 ''t1''
          [\<lparr>itemIndex = 0, quantity = 3, description = ''damaged''\<rparr>]) =
     Inr (exampleAfterSecond, 270)"
  by (simp add: return_defs example_defs)

lemma example_lamps_found: "transactions exampleTwoLampsDb ''t3'' = Some exampleTwoLamps"
  by (simp add: exampleTwoLampsDb_def)

lemma example_lamps_return:
  "fst (processReturn exampleTwoLampsDb 20 ''t3''
          [\<lparr>itemIndex = 0, quantity = 1, description = []\<rparr>]) =
     Inr (exampleTwoLampsAfter, 100)"
  by (simp add: return_defs example_defs)


section \<open>The claims\<close>

text \<open>
  C1. A return request in which a line fails validation is rejected, but the distributions
  are not left unchanged: the stock of the lines before the offending line has been
  reinstated and saved by then. At the request to return one pen (valid) and then five pens
  (only four were sold), the handler answers with the over-return error, the transaction
  is untouched, and the distribution of the cashier holds six pens where it held five.
\<close>

theorem rejected_return_keeps_reinstated_stock:
  "processReturn exampleDb 20 ''t1''
     [\<lparr>itemIndex = 0, quantity = 1, description = []\<rparr>,
      \<lparr>itemIndex = 0, quantity = 5, description = []\<rparr>] =
   (Inl (CannotReturn 5 ''Pen'' 4), exampleDb\<lparr>distributions := [exampleLotAfterFirst]\<rparr>) \<and>
   [exampleLotAfterFirst] \<noteq> distributions exampleDb"
  by (simp add: return_defs example_defs)

text \<open>
  C2. The returned quantities of one original item can exceed its quantity: the quantity
  already returned is read from the returned items that the transaction had when it was
  loaded, so two lines of one request for the same item are each checked against the same
  remainder. Of the four pens sold, the request to return three and three again succeeds
  and records six returned pens.
\<close>

theorem two_lines_return_more_than_sold:
  "\<not> isl (fst (processReturn exampleDb 20 ''t1''
     [\<lparr>itemIndex = 0, quantity = 3, description = []\<rparr>,
      \<lparr>itemIndex = 0, quantity = 3, description = []\<rparr>])) \<and>
   map quantity (returnedItems (fst (projr (fst (processReturn exampleDb 20 ''t1''
     [\<lparr>itemIndex = 0, quantity = 3, description = []\<rparr>,
      \<lparr>itemIndex = 0, quantity = 3, description = []\<rparr>]))))) = [3, 3] \<and>
   map productId (returnedItems (fst (projr (fst (processReturn exampleDb 20 ''t1''
     [\<lparr>itemIndex = 0, quantity = 3, description = []\<rparr>,
      \<lparr>itemIndex = 0, quantity = 3, description = []\<rparr>]))))) = [''p1'', ''p1''] \<and>
   ITransaction.items exampleTransaction = [exampleItem] \<and> quantity exampleItem = 4"
  by (simp add: return_defs example_defs)

text \<open>
  C3. The check of the sender's stock does not reject every request that asks for more of a
  product than the sender holds. Each line is compared on its own with the whole stock of
  its product, so two lines for one product pass although together they exceed it: with
  five pens held, the request for three pens and three pens again is accepted, the
  sender's distribution is emptied and cancelled, and the receiver gets six pens. And a
  product id that names a member of \<^verbatim>\<open>Object.prototype\<close> passes whatever the stock is: of
  the product \<open>constructor\<close> the sender holds nothing, and the request for two pens and two
  of it is accepted and takes the two pens from the sender.
\<close>

theorem transfer_accepted_beyond_stock:
  "availableStock [exampleLot] ''c1'' ''p1'' = 5 \<and>
   transferStock [exampleLot] ''d9'' 50 ''c1'' ''c2'' [threePens, threePens] [] =
     (Inr (),
      [exampleLot\<lparr>Distribution.items := [], Distribution.totalValue := 0,
                  Distribution.status := cancelled\<rparr>,
       \<lparr>docId = ''d9'', adminId = ''c1'', cashierId = ''c2'',
         items = [fivePens\<lparr>quantity := 3, DistributionItem.totalValue := 300\<rparr>,
                  fivePens\<lparr>quantity := 3, DistributionItem.totalValue := 300\<rparr>],
         totalValue = 600, notes' = ''Distribution from cashier'', status = delivered,
         createdAt = 50\<rparr>]) \<and>
   availableStock [exampleLot] ''c1'' ''constructor'' = 0 \<and>
   transferStock [exampleLot] ''d9'' 50 ''c1'' ''c2'' [examplePens, constructorLine] [] =
     (Inr (),
      [exampleLot\<lparr>Distribution.items := [fivePens\<lparr>quantity := 3\<rparr>],
                  Distribution.totalValue := 300\<rparr>,
       \<lparr>docId = ''d9'', adminId = ''c1'', cashierId = ''c2'',
         items = [fivePens\<lparr>quantity := 2, DistributionItem.totalValue := 200\<rparr>,
                  \<lparr>productId = ''constructor'', productName = ''Widget'',
                    productSku = ''SKU-9'', category = ''Office'', quantity = 2, price = 10,
                    DistributionItem.totalValue = 20\<rparr>],
         totalValue = 220, notes' = ''Distribution from cashier'', status = delivered,
         createdAt = 50\<rparr>])"
  by (simp add: transfer_defs availableStock_def example_defs)

text \<open>
  C4. The depletion does not take \<open>min Q q1\<close> from the oldest distribution when that
  distribution has two line items of the product, which is what a transfer of two lines
  for one product to a cashier without distributions creates: cashier \<open>c2\<close> gets a
  distribution with a line item of two pens and one of three. Of its five pens and the five
  and four pens of two later distributions, a transfer of four pens finds the line item of
  two, takes two, and on its reaching zero filters out every line item of the product: the
  oldest distribution is left without line items and cancelled, its other three pens are
  gone, and the second distribution gives the remaining two, where four pens of the oldest
  were to be taken and the second left as it was.
\<close>

theorem duplicate_line_items_are_destroyed:
  "transferStock [tenPensLot] ''d9'' 20 ''c1'' ''c2'' [examplePens, threePens] [] =
     (Inr (), [tenPensLotAfter, splitLot]) \<and>
   held ''p1'' splitLot = 5 \<and> held ''p1'' laterLot5 = 5 \<and> held ''p1'' laterLot4 = 4 \<and>
   sortOldestFirst (findDistributions ''c2'' [pending, delivered]
     [tenPensLotAfter, splitLot, laterLot5, laterLot4]) = [splitLot, laterLot5, laterLot4] \<and>
   transferStock [tenPensLotAfter, splitLot, laterLot5, laterLot4] ''d12'' 60 ''c2'' ''c3''
       [fourPensLine] [] =
     (Inr (),
      [tenPensLotAfter,
       splitLot\<lparr>Distribution.items := [], Distribution.totalValue := 0,
                Distribution.status := cancelled\<rparr>,
       laterLot5\<lparr>Distribution.items := [fivePens\<lparr>quantity := 3\<rparr>],
                 Distribution.totalValue := 300\<rparr>,
       laterLot4,
       \<lparr>docId = ''d12'', adminId = ''c2'', cashierId = ''c3'',
         items = [fourPens], totalValue = 400, notes' = ''Distribution from cashier'',
         status = delivered, createdAt = 60\<rparr>])"
  by (simp add: transfer_defs held_def example_defs)



text \<open>
  C6. In a return that succeeds, the refund of every requested line is the line total of
  the original item divided by its quantity, times the returned quantity; the returned
  items that the request appends carry these refunds, and the \<^verbatim>\<open>returnAmount\<close> of the response
  is their sum. Every requested index is in range and every divisor is at least 1.
\<close>

theorem refund_is_proportional:
  assumes "transactions db tid = Some tx"
      and "fst (processReturn db now tid req) = Inr (tx', R)"
  shows "R = sum_list (map (proportionalRefund tx) req) \<and>
         map returnAmount (drop (length (returnedItems tx)) (returnedItems tx')) =
           map (proportionalRefund tx) req \<and>
         (\<forall>r \<in> set req. 0 \<le> itemIndex r \<and> itemIndex r < int (length (ITransaction.items tx)) \<and>
                         1 \<le> quantity (ITransaction.items tx ! nat (itemIndex r)))"
proof -
  from processReturn_Inr[OF assms] obtain new ds where
    loop: "returnLoop tx now req 0 [] (distributions db) = (Inr (R, new), ds)"
    and tx': "tx' = (applyReturn tx R new)\<lparr>updatedAt := now\<rparr>"
    and v: "validTransaction (applyReturn tx R new)"
    by blast
  from returnLoop_Inr[OF loop] have
    idx: "\<forall>r \<in> set req. 0 \<le> itemIndex r \<and> itemIndex r < int (length (ITransaction.items tx))"
    and amt: "map returnAmount new = map (proportionalRefund tx) req"
    and R: "R = sum_list (map (proportionalRefund tx) req)"
    by simp_all
  from v have "\<forall>i \<in> set (ITransaction.items tx). 1 \<le> quantity i"
    by (simp add: validTransaction_def applyReturn_def Let_def list_all_iff validItem_def)
  with idx have "\<forall>r \<in> set req. 1 \<le> quantity (ITransaction.items tx ! nat (itemIndex r))"
    by (metis nat_less_iff nth_mem)
  with idx amt R show ?thesis
    by (simp add: tx' applyReturn_def Let_def)
qed

text \<open>
  The example of the specification: of four pens with line total 360, returning one
  refunds 90 and returning the other three refunds 270, which is 360 together.
\<close>

theorem refund_is_proportional_witness:
  "transactions exampleDb ''t1'' = Some exampleTransaction \<and>
   fst (processReturn exampleDb 20 ''t1'' [\<lparr>itemIndex = 0, quantity = 1, description = []\<rparr>]) =
     Inr (exampleAfterFirst, 90) \<and>
   (90 :: rat) = sum_list (map (proportionalRefund exampleTransaction)
                    [\<lparr>itemIndex = 0, quantity = 1, description = []\<rparr>]) \<and>
   transactions exampleDbAfterFirst ''t1'' = Some exampleAfterFirst \<and>
   fst (processReturn exampleDbAfterFirst 30 ''t1''
          [\<lparr>itemIndex = 0, quantity = 3, description = ''damaged''\<rparr>]) =
     Inr (exampleAfterSecond, 270) \<and>
   (270 :: rat) = sum_list (map (proportionalRefund exampleAfterFirst)
                     [\<lparr>itemIndex = 0, quantity = 3, description = ''damaged''\<rparr>]) \<and>
   (90 :: rat) + 270 = total exampleItem"
proof -
  have first: "fst (processReturn exampleDb 20 ''t1''
      [\<lparr>itemIndex = 0, quantity = 1, description = []\<rparr>]) = Inr (exampleAfterFirst, 90)"
    by (simp add: example_first_return)
  from refund_is_proportional[OF example_found first]
       refund_is_proportional[OF example_found_after_first example_second_return]
       example_found example_found_after_first first example_second_return
  show ?thesis by (simp add: exampleItem_def)
qed






text \<open>
  C9, as the code has it. A return that succeeds sets the subtotal to
  \<open>max 0 (subtotal - totalReturnAmount)\<close> and the total amount to
  \<open>max 0 (totalAmount - totalReturnAmount)\<close>, neither of them negative, and leaves the
  overall discount as it is. For a transaction without overall discount, where the total
  amount is the subtotal, the two are the result of the same computation and
  \<open>totalAmount = subtotal - overallDiscount\<close> holds afterwards. With an overall discount
  the equation is not kept: the lamp sold at 100 with an overall discount of 10 is
  returned for 100, and subtotal and total amount are both 0 afterwards.
\<close>

theorem totals_after_return:
  assumes "transactions db tid = Some tx"
      and "fst (processReturn db now tid req) = Inr (tx', R)"
  shows "subtotal tx' = max 0 (subtotal tx - R) \<and>
         totalAmount tx' = max 0 (totalAmount tx - R) \<and>
         overallDiscount tx' = overallDiscount tx \<and>
         0 \<le> subtotal tx' \<and> 0 \<le> totalAmount tx' \<and>
         (overallDiscount tx = 0 \<and> totalAmount tx = subtotal tx
            \<longrightarrow> totalAmount tx' = subtotal tx' - overallDiscount tx')"
proof -
  from processReturn_Inr[OF assms] obtain new where
    tx': "tx' = (applyReturn tx R new)\<lparr>updatedAt := now\<rparr>"
    by blast
  show ?thesis
    by (simp add: tx' applyReturn_def Let_def)
qed

text \<open>
  Two lamps with line total 200, overall discount 10 and total amount 190: after the return
  of one lamp for 100, the subtotal is 100 and the total amount 90. Four pens without
  overall discount: after the return of one pen for 90, subtotal and total amount are 270.
\<close>

theorem totals_after_return_witness:
  "transactions exampleTwoLampsDb ''t3'' = Some exampleTwoLamps \<and>
   fst (processReturn exampleTwoLampsDb 20 ''t3''
          [\<lparr>itemIndex = 0, quantity = 1, description = []\<rparr>]) = Inr (exampleTwoLampsAfter, 100) \<and>
   overallDiscount exampleTwoLamps = 10 \<and>
   subtotal exampleTwoLampsAfter = max 0 (subtotal exampleTwoLamps - 100) \<and>
   totalAmount exampleTwoLampsAfter = max 0 (totalAmount exampleTwoLamps - 100) \<and>
   overallDiscount exampleTwoLampsAfter = overallDiscount exampleTwoLamps \<and>
   subtotal exampleTwoLampsAfter = 100 \<and> totalAmount exampleTwoLampsAfter = 90 \<and>
   transactions exampleDb ''t1'' = Some exampleTransaction \<and>
   fst (processReturn exampleDb 20 ''t1'' [\<lparr>itemIndex = 0, quantity = 1, description = []\<rparr>]) =
     Inr (exampleAfterFirst, 90) \<and>
   overallDiscount exampleTransaction = 0 \<and>
   totalAmount exampleTransaction = subtotal exampleTransaction \<and>
   totalAmount exampleAfterFirst = subtotal exampleAfterFirst - overallDiscount exampleAfterFirst \<and>
   subtotal exampleAfterFirst = 270"
proof -
  have first: "fst (processReturn exampleDb 20 ''t1''
      [\<lparr>itemIndex = 0, quantity = 1, description = []\<rparr>]) = Inr (exampleAfterFirst, 90)"
    by (simp add: example_first_return)
  have d: "overallDiscount exampleTwoLamps = 10"
    and v: "subtotal exampleTwoLampsAfter = 100" "totalAmount exampleTwoLampsAfter = 90"
    and z: "overallDiscount exampleTransaction = 0"
           "totalAmount exampleTransaction = subtotal exampleTransaction"
    and w: "subtotal exampleAfterFirst = 270"
    by (simp_all add: example_defs)
  note lamps = totals_after_return[OF example_lamps_found example_lamps_return]
  note pens = totals_after_return[OF example_found first]
  note eq = pens[THEN conjunct2, THEN conjunct2, THEN conjunct2, THEN conjunct2, THEN conjunct2,
      THEN mp, OF conjI[OF z]]
  show ?thesis
    by (intro conjI example_lamps_found example_lamps_return d lamps[THEN conjunct1]
        lamps[THEN conjunct2, THEN conjunct1] lamps[THEN conjunct2, THEN conjunct2, THEN conjunct1]
        v example_found first z eq w)
qed

theorem totals_equation_broken_by_clamping:
  "totalAmount exampleDiscounted = subtotal exampleDiscounted - overallDiscount exampleDiscounted \<and>
   \<not> isl (fst (processReturn exampleDiscountedDb 20 ''t2''
            [\<lparr>itemIndex = 0, quantity = 1, description = []\<rparr>])) \<and>
   totalAmount (fst (projr (fst (processReturn exampleDiscountedDb 20 ''t2''
            [\<lparr>itemIndex = 0, quantity = 1, description = []\<rparr>])))) \<noteq>
   subtotal (fst (projr (fst (processReturn exampleDiscountedDb 20 ''t2''
            [\<lparr>itemIndex = 0, quantity = 1, description = []\<rparr>])))) -
   overallDiscount (fst (projr (fst (processReturn exampleDiscountedDb 20 ''t2''
            [\<lparr>itemIndex = 0, quantity = 1, description = []\<rparr>]))))"
  by (simp add: return_defs example_defs)

text \<open>
  C10. A transfer whose sender is its receiver is rejected, whatever the stored
  distributions are, and they are left as they were: with the error for missing fields when
  the cashier id or the list of lines is empty, and with the error for a transfer to
  oneself otherwise.
\<close>

theorem transfer_to_self_rejected:
  "transferStock db newId now c c requested notesText =
     (Inl (if c = [] \<or> requested = [] then MissingRequiredFields else CannotDistributeToYourself),
      db)"
  by (simp add: transferStock_def)

theorem transfer_to_self_rejected_witness:
  "transferStock [exampleLot] ''d9'' 50 ''c1'' ''c1'' [examplePens] [] =
     (Inl CannotDistributeToYourself, [exampleLot])"
  using transfer_to_self_rejected[of "[exampleLot]" "''d9''" 50 "''c1''" "[examplePens]" "[]"]
  by simp

end
